theory Spec2Isabelle
  imports Main
begin

section \<open>The pet and its constants\<close>

text \<open>
  \<^verbatim>\<open>tamagotchi.py\<close> keeps the pet in a dict with the nine keys that \<^verbatim>\<open>make_pet\<close>
  creates; no function of the engine adds or removes a key. The dict is therefore a
  record with one field per key. Python integers are unbounded, so the numeric
  fields are \<open>int\<close>.
\<close>

record pet =
  name :: string
  hunger :: int
  happiness :: int
  energy :: int
  health :: int
  turn :: int
  alive :: bool
  sleeping :: bool
  sleep_turns_remaining :: int

text \<open>
  The keys of the numeric stats, used where the source addresses a stat through a
  key held in a variable (\<^verbatim>\<open>pet[stat]\<close> in \<^verbatim>\<open>decay_stats\<close>).
\<close>

datatype stat = Hunger | Happiness | Energy | Health

fun get_stat :: "stat \<Rightarrow> pet \<Rightarrow> int" where
  "get_stat Hunger p = hunger p"
| "get_stat Happiness p = happiness p"
| "get_stat Energy p = energy p"
| "get_stat Health p = health p"

fun set_stat :: "stat \<Rightarrow> int \<Rightarrow> pet \<Rightarrow> pet" where
  "set_stat Hunger v p = p\<lparr>hunger := v\<rparr>"
| "set_stat Happiness v p = p\<lparr>happiness := v\<rparr>"
| "set_stat Energy v p = p\<lparr>energy := v\<rparr>"
| "set_stat Health v p = p\<lparr>health := v\<rparr>"

text \<open>\<^verbatim>\<open>DECAY\<close>: a dict literal, iterated in insertion order.\<close>

definition DECAY :: "(stat \<times> int) list" where
  "DECAY = [(Hunger, 5), (Energy, 4), (Happiness, 2)]"

text \<open>\<^verbatim>\<open>clamp(value, lo, hi)\<close> is \<^verbatim>\<open>max(lo, min(hi, value))\<close>.\<close>

definition clamp :: "int \<Rightarrow> int \<Rightarrow> int \<Rightarrow> int" where
  "clamp v lo hi = max lo (min hi v)"

definition make_pet :: "string \<Rightarrow> pet" where
  "make_pet n = \<lparr>name = n, hunger = 80, happiness = 80, energy = 80, health = 100,
     turn = 1, alive = True, sleeping = False, sleep_turns_remaining = 0\<rparr>"

section \<open>Stat logic\<close>

text \<open>
  Every function below mutates the dict it is given and returns nothing; here it
  takes the pet and returns the pet after the call.
\<close>

definition decay_stats :: "pet \<Rightarrow> pet" where
  "decay_stats p =
     fold (\<lambda>(s, amount) q. set_stat s (clamp (get_stat s q - amount) 0 100) q) DECAY p"

definition check_health_drain :: "pet \<Rightarrow> pet" where
  "check_health_drain p =
     (if hunger p = 0 then p\<lparr>health := clamp (health p - 10) 0 100\<rparr> else p)"

definition check_death :: "pet \<Rightarrow> pet" where
  "check_death p = (if health p \<le> 0 then p\<lparr>alive := False\<rparr> else p)"

section \<open>Actions\<close>

definition apply_feed :: "pet \<Rightarrow> pet" where
  "apply_feed p = p\<lparr>hunger := clamp (hunger p + 30) 0 100\<rparr>"

definition apply_play :: "pet \<Rightarrow> pet" where
  "apply_play p =
     (let p1 = p\<lparr>happiness := clamp (happiness p + 20) 0 100\<rparr>
      in p1\<lparr>energy := clamp (energy p1 - 15) 0 100\<rparr>)"

definition start_sleep :: "pet \<Rightarrow> pet" where
  "start_sleep p = p\<lparr>sleeping := True, sleep_turns_remaining := 3\<rparr>"

definition process_sleep_turn :: "pet \<Rightarrow> pet" where
  "process_sleep_turn p =
     (let p1 = p\<lparr>energy := clamp (energy p + 25) 0 100\<rparr>;
          p2 = p1\<lparr>sleep_turns_remaining := sleep_turns_remaining p1 - 1\<rparr>
      in if sleep_turns_remaining p2 \<le> 0
         then p2\<lparr>sleeping := False, sleep_turns_remaining := 0\<rparr>
         else p2)"

section \<open>Mood\<close>

text \<open>\<^verbatim>\<open>get_mood\<close> only reads the dict and returns a string.\<close>

definition get_mood :: "pet \<Rightarrow> string" where
  "get_mood p =
     (if sleeping p then ''sleeping''
      else let h = hunger p; hp = happiness p; e = energy p in
        if h \<ge> 50 \<and> hp \<ge> 50 \<and> e \<ge> 30 then ''happy''
        else if h < 25 \<or> hp < 25 \<or> e < 20 then ''sad''
        else ''neutral'')"

text \<open>
  The mood as the specification words it, rule by rule, for comparison with
  \<^const>\<open>get_mood\<close>: rule 1 sleeping; rule 2 happy; rule 3 sad; rule 4 neutral.
\<close>

definition spec_mood :: "bool \<Rightarrow> int \<Rightarrow> int \<Rightarrow> int \<Rightarrow> string" where
  "spec_mood slp h hp e =
     (if slp then ''sleeping''
      else if h \<ge> 50 \<and> hp \<ge> 50 \<and> e \<ge> 30 then ''happy''
      else if h < 25 \<or> hp < 25 \<or> e < 20 then ''sad''
      else ''neutral'')"

text \<open>\<^verbatim>\<open>FACES\<close>: the keys of the table of faces, in the order of the source.\<close>

definition FACES_keys :: "string list" where
  "FACES_keys = [''happy'', ''neutral'', ''sad'', ''sleeping'', ''dead'']"

section \<open>One iteration of the main loop\<close>

text \<open>
  The body of \<^verbatim>\<open>while pet["alive"]\<close> in \<^verbatim>\<open>run_game\<close>, without the rendering and
  the pauses. An iteration either goes on with the loop (\<open>Next\<close>) or leaves the
  program through \<^verbatim>\<open>sys.exit(0)\<close> (\<open>Exited\<close>); both carry the pet as it then is.
  \<^verbatim>\<open>save_game\<close> serialises the dict to the save file and does not assign to it.

  The action is the string that \<^verbatim>\<open>prompt_action\<close> returned. The chain of
  \<^verbatim>\<open>if/elif\<close> has no final \<^verbatim>\<open>else\<close>: any other string falls through to the end of
  the turn like \<^verbatim>\<open>"c"\<close>.
\<close>

datatype outcome = Next pet | Exited pet

text \<open>The four statements that end a turn (they occur twice in the loop body).\<close>

definition end_of_turn :: "pet \<Rightarrow> pet" where
  "end_of_turn p =
     (let p1 = check_death (check_health_drain (decay_stats p))
      in if alive p1 then p1\<lparr>turn := turn p1 + 1\<rparr> else p1)"

text \<open>The branch \<^verbatim>\<open>if pet["sleeping"]\<close>: no action is asked for.\<close>

definition sleeping_turn :: "pet \<Rightarrow> outcome" where
  "sleeping_turn p = Next (end_of_turn (process_sleep_turn p))"

text \<open>The rest of the body, from the value of \<^verbatim>\<open>prompt_action()\<close> on.\<close>

definition player_turn :: "string \<Rightarrow> pet \<Rightarrow> outcome" where
  "player_turn action p =
     (if action = ''f'' then Next (end_of_turn (apply_feed p))
      else if action = ''p'' then Next (end_of_turn (apply_play p))
      else if action = ''s'' then Next (end_of_turn (start_sleep p))
      else if action = ''c'' then Next (end_of_turn p)
      else if action = ''save'' then Next p
      else if action = ''q'' then Exited p
      else Next (end_of_turn p))"

text \<open>
  The whole body: the action is only looked at when the pet is awake, since a
  sleeping pet reaches \<^verbatim>\<open>continue\<close> before \<^verbatim>\<open>prompt_action\<close> is called.
\<close>

definition loop_body :: "string \<Rightarrow> pet \<Rightarrow> outcome" where
  "loop_body action p = (if sleeping p then sleeping_turn p else player_turn action p)"

section \<open>The range invariant\<close>

text \<open>The four numeric stats lie in \<open>[0,100]\<close>.\<close>

definition stats_in_range :: "pet \<Rightarrow> bool" where
  "stats_in_range p =
     (0 \<le> hunger p \<and> hunger p \<le> 100 \<and> 0 \<le> happiness p \<and> happiness p \<le> 100 \<and>
      0 \<le> energy p \<and> energy p \<le> 100 \<and> 0 \<le> health p \<and> health p \<le> 100)"

section \<open>Auxiliary facts\<close>

lemma clamp_bounds: "0 \<le> clamp v 0 100 \<and> clamp v 0 100 \<le> 100"
  by (simp add: clamp_def)

lemma decay_stats_unfold:
  "decay_stats p = p\<lparr>hunger := clamp (hunger p - 5) 0 100,
                     energy := clamp (energy p - 4) 0 100,
                     happiness := clamp (happiness p - 2) 0 100\<rparr>"
  by (simp add: decay_stats_def DECAY_def)

lemma in_range_decay: "stats_in_range p \<Longrightarrow> stats_in_range (decay_stats p)"
  by (simp add: stats_in_range_def decay_stats_unfold clamp_bounds)

lemma in_range_drain: "stats_in_range p \<Longrightarrow> stats_in_range (check_health_drain p)"
  by (simp add: stats_in_range_def check_health_drain_def clamp_bounds)

lemma in_range_death: "stats_in_range p \<Longrightarrow> stats_in_range (check_death p)"
  by (simp add: stats_in_range_def check_death_def)

lemma in_range_feed: "stats_in_range p \<Longrightarrow> stats_in_range (apply_feed p)"
  by (simp add: stats_in_range_def apply_feed_def clamp_bounds)

lemma in_range_play: "stats_in_range p \<Longrightarrow> stats_in_range (apply_play p)"
  by (simp add: stats_in_range_def apply_play_def Let_def clamp_bounds)

lemma in_range_start_sleep: "stats_in_range p \<Longrightarrow> stats_in_range (start_sleep p)"
  by (simp add: stats_in_range_def start_sleep_def)

lemma in_range_sleep_turn: "stats_in_range p \<Longrightarrow> stats_in_range (process_sleep_turn p)"
  by (simp add: stats_in_range_def process_sleep_turn_def Let_def clamp_bounds)

section \<open>Claims\<close>

text \<open>
  C1. If hunger, happiness, energy and health all lie in \<open>[0,100]\<close>, they still do
  after any one of \<^const>\<open>decay_stats\<close>, \<^const>\<open>check_health_drain\<close>,
  \<^const>\<open>check_death\<close>, \<^const>\<open>apply_feed\<close>, \<^const>\<open>apply_play\<close>,
  \<^const>\<open>start_sleep\<close> and \<^const>\<open>process_sleep_turn\<close>.
\<close>

theorem stats_stay_in_range:
  assumes "stats_in_range p"
  shows "stats_in_range (decay_stats p) \<and>
         stats_in_range (check_health_drain p) \<and>
         stats_in_range (check_death p) \<and>
         stats_in_range (apply_feed p) \<and>
         stats_in_range (apply_play p) \<and>
         stats_in_range (start_sleep p) \<and>
         stats_in_range (process_sleep_turn p)"
  using assms
  by (simp add: in_range_decay in_range_drain in_range_death in_range_feed
      in_range_play in_range_start_sleep in_range_sleep_turn)

text \<open>C1 at a pet with hunger 0, happiness 100 and energy 3: playing floors the energy at 0.\<close>

theorem stats_stay_in_range_witness:
  "stats_in_range ((make_pet ''Pip'')\<lparr>hunger := 0, happiness := 100, energy := 3\<rparr>) \<and>
   stats_in_range (decay_stats ((make_pet ''Pip'')\<lparr>hunger := 0, happiness := 100, energy := 3\<rparr>)) \<and>
   stats_in_range (apply_play ((make_pet ''Pip'')\<lparr>hunger := 0, happiness := 100, energy := 3\<rparr>)) \<and>
   energy (apply_play ((make_pet ''Pip'')\<lparr>hunger := 0, happiness := 100, energy := 3\<rparr>)) = 0 \<and>
   happiness (apply_play ((make_pet ''Pip'')\<lparr>hunger := 0, happiness := 100, energy := 3\<rparr>)) = 100"
proof -
  have h: "stats_in_range ((make_pet ''Pip'')\<lparr>hunger := 0, happiness := 100, energy := 3\<rparr>)"
    by (simp add: stats_in_range_def make_pet_def)
  show ?thesis
    using h stats_stay_in_range [OF h]
    by (simp add: apply_play_def make_pet_def clamp_def Let_def)
qed

text \<open>
  C2 as stated fails: a fresh pet that is fed and whose turn is then resolved does not
  end the turn with hunger 100. Feeding clamps 80 + 30 to 100, and the decay of the
  same turn takes 5 off again.
\<close>

theorem feed_turn_hunger_not_100:
  "loop_body ''f'' (make_pet ''Pip'') \<noteq>
     Next \<lparr>name = ''Pip'', hunger = 100, happiness = 78, energy = 76, health = 100,
           turn = 2, alive = True, sleeping = False, sleep_turns_remaining = 0\<rparr> \<and>
   hunger (end_of_turn (apply_feed (make_pet ''Pip''))) \<noteq> 100"
  by (simp add: loop_body_def player_turn_def end_of_turn_def apply_feed_def
      decay_stats_unfold check_health_drain_def check_death_def make_pet_def clamp_def Let_def)

text \<open>
  C2, amended. For a fresh pet of any name, the feed action followed by the end of the
  turn (decay, health drain, death check, turn increment) gives hunger 95, happiness
  78, energy 76, health 100, turn 2 and a pet that is alive; hunger is 100 right after
  \<^const>\<open>apply_feed\<close>, before the decay.
\<close>

theorem feed_turn_from_fresh_pet:
  "loop_body ''f'' (make_pet n) =
     Next \<lparr>name = n, hunger = 95, happiness = 78, energy = 76, health = 100,
           turn = 2, alive = True, sleeping = False, sleep_turns_remaining = 0\<rparr> \<and>
   end_of_turn (apply_feed (make_pet n)) =
     \<lparr>name = n, hunger = 95, happiness = 78, energy = 76, health = 100,
      turn = 2, alive = True, sleeping = False, sleep_turns_remaining = 0\<rparr> \<and>
   hunger (apply_feed (make_pet n)) = 100"
  by (simp add: loop_body_def player_turn_def end_of_turn_def apply_feed_def
      decay_stats_unfold check_health_drain_def check_death_def make_pet_def clamp_def Let_def)

text \<open>
  C3. A pet that is alive and awake with hunger 0 and health 10 goes through one turn
  with the action \<^verbatim>\<open>"c"\<close> (check, no stat change): the loop goes on to its guard with
  health 0, \<open>alive = False\<close> and the turn counter as it was before the turn.
\<close>

theorem starving_check_turn_kills:
  assumes "hunger p = 0" and "health p = 10" and "alive p" and "\<not> sleeping p"
  shows "case loop_body ''c'' p of
           Next q \<Rightarrow> health q = 0 \<and> \<not> alive q \<and> turn q = turn p
         | Exited q \<Rightarrow> False"
  using assms
  by (simp add: loop_body_def player_turn_def end_of_turn_def
      decay_stats_unfold check_health_drain_def check_death_def clamp_def Let_def)

text \<open>C3 at a pet in its 17th turn.\<close>

theorem starving_check_turn_kills_witness:
  "hunger ((make_pet ''Pip'')\<lparr>hunger := 0, health := 10, turn := 17\<rparr>) = 0 \<and>
   health ((make_pet ''Pip'')\<lparr>hunger := 0, health := 10, turn := 17\<rparr>) = 10 \<and>
   alive ((make_pet ''Pip'')\<lparr>hunger := 0, health := 10, turn := 17\<rparr>) \<and>
   \<not> sleeping ((make_pet ''Pip'')\<lparr>hunger := 0, health := 10, turn := 17\<rparr>) \<and>
   loop_body ''c'' ((make_pet ''Pip'')\<lparr>hunger := 0, health := 10, turn := 17\<rparr>) =
     Next \<lparr>name = ''Pip'', hunger = 0, happiness = 78, energy = 76, health = 0,
           turn = 17, alive = False, sleeping = False, sleep_turns_remaining = 0\<rparr>"
proof -
  let ?P = "(make_pet ''Pip'')\<lparr>hunger := 0, health := 10, turn := 17\<rparr>"
  have h: "hunger ?P = 0" "health ?P = 10" "alive ?P" "\<not> sleeping ?P"
    by (simp_all add: make_pet_def)
  have e: "loop_body ''c'' ?P =
     Next \<lparr>name = ''Pip'', hunger = 0, happiness = 78, energy = 76, health = 0,
           turn = 17, alive = False, sleeping = False, sleep_turns_remaining = 0\<rparr>"
    by (simp add: loop_body_def player_turn_def end_of_turn_def
      decay_stats_unfold check_health_drain_def check_death_def clamp_def Let_def make_pet_def)
  show ?thesis
    using h e starving_check_turn_kills [OF h] by simp
qed

text \<open>
  C4. Death is monotone. A pet with \<open>alive = False\<close> is still not alive after any of
  the seven operations that write to the pet; \<^const>\<open>get_mood\<close> writes nothing (it
  maps the pet to a string, and the pet after the call is the pet before it). A
  freshly made pet is alive, whatever its name.
\<close>

theorem death_is_monotone:
  assumes "\<not> alive p"
  shows "\<not> alive (decay_stats p) \<and>
         \<not> alive (check_health_drain p) \<and>
         \<not> alive (check_death p) \<and>
         \<not> alive (apply_feed p) \<and>
         \<not> alive (apply_play p) \<and>
         \<not> alive (start_sleep p) \<and>
         \<not> alive (process_sleep_turn p) \<and>
         alive (make_pet n)"
  using assms
  by (simp add: decay_stats_unfold check_health_drain_def check_death_def apply_feed_def
      apply_play_def start_sleep_def process_sleep_turn_def make_pet_def Let_def)

text \<open>
  C4 at a dead pet: feeding it or letting it sleep does not revive it.
\<close>

theorem death_is_monotone_witness:
  "\<not> alive ((make_pet ''Pip'')\<lparr>hunger := 0, health := 0, alive := False\<rparr>) \<and>
   \<not> alive (apply_feed ((make_pet ''Pip'')\<lparr>hunger := 0, health := 0, alive := False\<rparr>)) \<and>
   \<not> alive (process_sleep_turn ((make_pet ''Pip'')\<lparr>hunger := 0, health := 0, alive := False\<rparr>)) \<and>
   alive (make_pet ''Rex'')"
proof -
  have h: "\<not> alive ((make_pet ''Pip'')\<lparr>hunger := 0, health := 0, alive := False\<rparr>)"
    by (simp add: make_pet_def)
  show ?thesis
    using h death_is_monotone [OF h, of "''Rex''"] by simp
qed

text \<open>
  C5. With hunger exactly 0, \<^const>\<open>check_health_drain\<close> replaces health by health - 10
  brought back into \<open>[0,100]\<close> and touches nothing else; with hunger above 0 the whole
  pet is unchanged; and the pet changes only if hunger is 0.
\<close>

theorem health_drain_iff_starving:
  "(hunger p = 0 \<longrightarrow>
      check_health_drain p =
        p\<lparr>health := (if health p - 10 < 0 then 0
                      else if 100 < health p - 10 then 100 else health p - 10)\<rparr>) \<and>
   (0 < hunger p \<longrightarrow> check_health_drain p = p) \<and>
   (check_health_drain p \<noteq> p \<longrightarrow> hunger p = 0)"
  by (simp add: check_health_drain_def clamp_def)

text \<open>
  C5 at health 4 with hunger 0 (health floors at 0) and with hunger 1 (no change).
\<close>

theorem health_drain_iff_starving_witness:
  "hunger ((make_pet ''Pip'')\<lparr>hunger := 0, health := 4\<rparr>) = 0 \<and>
   check_health_drain ((make_pet ''Pip'')\<lparr>hunger := 0, health := 4\<rparr>) =
     (make_pet ''Pip'')\<lparr>hunger := 0, health := 0\<rparr> \<and>
   check_health_drain ((make_pet ''Pip'')\<lparr>hunger := 0, health := 4\<rparr>) \<noteq>
     (make_pet ''Pip'')\<lparr>hunger := 0, health := 4\<rparr> \<and>
   0 < hunger ((make_pet ''Pip'')\<lparr>hunger := 1, health := 4\<rparr>) \<and>
   check_health_drain ((make_pet ''Pip'')\<lparr>hunger := 1, health := 4\<rparr>) =
     (make_pet ''Pip'')\<lparr>hunger := 1, health := 4\<rparr>"
  using health_drain_iff_starving [of "(make_pet ''Pip'')\<lparr>hunger := 0, health := 4\<rparr>"]
        health_drain_iff_starving [of "(make_pet ''Pip'')\<lparr>hunger := 1, health := 4\<rparr>"]
  by (simp add: make_pet_def)

text \<open>
  C6. From energy 40, \<^const>\<open>start_sleep\<close> and then three calls of
  \<^const>\<open>process_sleep_turn\<close> give energy 100, \<open>sleeping = False\<close> and
  \<open>sleep_turns_remaining = 0\<close>, with every other field as it was. None of the two
  functions reads \<open>alive\<close>, so this holds for every pet with energy 40.
\<close>

theorem sleep_cycle_from_energy_40:
  assumes "energy p = 40"
  shows "process_sleep_turn (process_sleep_turn (process_sleep_turn (start_sleep p))) =
           p\<lparr>energy := 100, sleeping := False, sleep_turns_remaining := 0\<rparr> \<and>
         energy (process_sleep_turn (process_sleep_turn (process_sleep_turn (start_sleep p)))) = 100 \<and>
         \<not> sleeping (process_sleep_turn (process_sleep_turn (process_sleep_turn (start_sleep p)))) \<and>
         sleep_turns_remaining
           (process_sleep_turn (process_sleep_turn (process_sleep_turn (start_sleep p)))) = 0"
  using assms
  by (simp add: start_sleep_def process_sleep_turn_def clamp_def Let_def)

text \<open>
  C6 at a fresh pet whose energy has dropped to 40.
\<close>

theorem sleep_cycle_from_energy_40_witness:
  "energy ((make_pet ''Pip'')\<lparr>energy := 40\<rparr>) = 40 \<and>
   process_sleep_turn (process_sleep_turn (process_sleep_turn
       (start_sleep ((make_pet ''Pip'')\<lparr>energy := 40\<rparr>)))) =
     (make_pet ''Pip'')\<lparr>energy := 100\<rparr>"
proof -
  have h: "energy ((make_pet ''Pip'')\<lparr>energy := 40\<rparr>) = 40"
    by simp
  show ?thesis
    using h sleep_cycle_from_energy_40 [OF h] by (simp add: make_pet_def)
qed

text \<open>
  C7. \<^const>\<open>get_mood\<close> is the four-rule definition of the specification,
  \<^const>\<open>spec_mood\<close>: sleeping whenever the pet sleeps; otherwise happy exactly when
  hunger \<open>\<ge> 50\<close>, happiness \<open>\<ge> 50\<close> and energy \<open>\<ge> 30\<close>; otherwise sad exactly when
  hunger \<open>< 25\<close> or happiness \<open>< 25\<close> or energy \<open>< 20\<close>; otherwise neutral. Hunger 25,
  happiness 50, energy 30 is neutral.
\<close>

theorem get_mood_refines_spec:
  "get_mood p = spec_mood (sleeping p) (hunger p) (happiness p) (energy p) \<and>
   (sleeping p \<longrightarrow> get_mood p = ''sleeping'') \<and>
   (\<not> sleeping p \<longrightarrow>
      (get_mood p = ''happy'') = (50 \<le> hunger p \<and> 50 \<le> happiness p \<and> 30 \<le> energy p)) \<and>
   (\<not> sleeping p \<and> \<not> (50 \<le> hunger p \<and> 50 \<le> happiness p \<and> 30 \<le> energy p) \<longrightarrow>
      (get_mood p = ''sad'') = (hunger p < 25 \<or> happiness p < 25 \<or> energy p < 20)) \<and>
   (\<not> sleeping p \<and> \<not> (50 \<le> hunger p \<and> 50 \<le> happiness p \<and> 30 \<le> energy p) \<and>
    \<not> (hunger p < 25 \<or> happiness p < 25 \<or> energy p < 20) \<longrightarrow>
      get_mood p = ''neutral'') \<and>
   (\<not> sleeping p \<and> hunger p = 25 \<and> happiness p = 50 \<and> energy p = 30 \<longrightarrow>
      get_mood p = ''neutral'')"
  by (simp add: get_mood_def spec_mood_def Let_def)

text \<open>
  C7 at the four examples of the specification, one for each rule.
\<close>

theorem get_mood_refines_spec_witness:
  "get_mood ((make_pet ''Pip'')\<lparr>hunger := 0, happiness := 0, energy := 0, sleeping := True\<rparr>)
     = ''sleeping'' \<and>
   get_mood ((make_pet ''Pip'')\<lparr>hunger := 50, happiness := 50, energy := 30\<rparr>) = ''happy'' \<and>
   get_mood ((make_pet ''Pip'')\<lparr>hunger := 24, happiness := 100, energy := 100\<rparr>) = ''sad'' \<and>
   get_mood ((make_pet ''Pip'')\<lparr>hunger := 25, happiness := 50, energy := 30\<rparr>) = ''neutral''"
  using
    get_mood_refines_spec
      [of "(make_pet ''Pip'')\<lparr>hunger := 0, happiness := 0, energy := 0, sleeping := True\<rparr>"]
    get_mood_refines_spec [of "(make_pet ''Pip'')\<lparr>hunger := 50, happiness := 50, energy := 30\<rparr>"]
    get_mood_refines_spec [of "(make_pet ''Pip'')\<lparr>hunger := 24, happiness := 100, energy := 100\<rparr>"]
    get_mood_refines_spec [of "(make_pet ''Pip'')\<lparr>hunger := 25, happiness := 50, energy := 30\<rparr>"]
  by (simp add: make_pet_def spec_mood_def)

text \<open>
  C8 as stated fails: three decays of a fresh pet, whose hunger, energy and happiness
  are 80, do not give (hunger, energy, happiness) = (65, 74, 72).
\<close>

theorem three_decays_not_65_74_72:
  "(hunger (decay_stats (decay_stats (decay_stats (make_pet ''Pip'')))),
    energy (decay_stats (decay_stats (decay_stats (make_pet ''Pip'')))),
    happiness (decay_stats (decay_stats (decay_stats (make_pet ''Pip''))))) \<noteq> (65, 74, 72) \<and>
   hunger (make_pet ''Pip'') = 80 \<and> energy (make_pet ''Pip'') = 80 \<and>
   happiness (make_pet ''Pip'') = 80"
  by (simp add: decay_stats_unfold make_pet_def clamp_def)

text \<open>
  C8, amended. Three consecutive calls of \<^const>\<open>decay_stats\<close> on a pet with hunger,
  energy and happiness 80 give (hunger, energy, happiness) = (65, 68, 74): 5, 4 and 2
  per call as \<^const>\<open>DECAY\<close> has them. Health is left alone.
\<close>

theorem three_decays_from_80:
  assumes "hunger p = 80" and "energy p = 80" and "happiness p = 80"
  shows "(hunger (decay_stats (decay_stats (decay_stats p))),
          energy (decay_stats (decay_stats (decay_stats p))),
          happiness (decay_stats (decay_stats (decay_stats p)))) = (65, 68, 74) \<and>
         health (decay_stats (decay_stats (decay_stats p))) = health p"
  using assms by (simp add: decay_stats_unfold clamp_def)

text \<open>
  C8, amended, at a fresh pet.
\<close>

theorem three_decays_from_80_witness:
  "hunger (make_pet ''Pip'') = 80 \<and> energy (make_pet ''Pip'') = 80 \<and>
   happiness (make_pet ''Pip'') = 80 \<and>
   decay_stats (decay_stats (decay_stats (make_pet ''Pip''))) =
     (make_pet ''Pip'')\<lparr>hunger := 65, energy := 68, happiness := 74\<rparr>"
proof -
  have h: "hunger (make_pet ''Pip'') = 80" "energy (make_pet ''Pip'') = 80"
    "happiness (make_pet ''Pip'') = 80"
    by (simp_all add: make_pet_def)
  have r: "decay_stats (decay_stats (decay_stats (make_pet ''Pip''))) =
     (make_pet ''Pip'')\<lparr>hunger := 65, energy := 68, happiness := 74\<rparr>"
    by (simp add: decay_stats_unfold make_pet_def clamp_def)
  show ?thesis
    using h r three_decays_from_80 [OF h] by simp
qed

text \<open>
  C9. The action \<^verbatim>\<open>"save"\<close> leaves the pet as it is and the loop goes on: no decay,
  no health drain, no death check and no turn increment. The action is only asked for
  when the pet is awake, so for the whole loop body this is said of a pet that does
  not sleep.
\<close>

theorem save_action_changes_nothing:
  "player_turn ''save'' p = Next p \<and>
   (\<not> sleeping p \<longrightarrow> loop_body ''save'' p = Next p)"
  by (simp add: player_turn_def loop_body_def)

text \<open>
  C9 at a starving pet with health 10, which a resolved turn would kill: after a save
  it is alive, in turn 1, with all its stats.
\<close>

theorem save_action_changes_nothing_witness:
  "\<not> sleeping ((make_pet ''Pip'')\<lparr>hunger := 0, health := 10\<rparr>) \<and>
   loop_body ''save'' ((make_pet ''Pip'')\<lparr>hunger := 0, health := 10\<rparr>) =
     Next \<lparr>name = ''Pip'', hunger = 0, happiness = 80, energy = 80, health = 10,
           turn = 1, alive = True, sleeping = False, sleep_turns_remaining = 0\<rparr>"
  using save_action_changes_nothing [of "(make_pet ''Pip'')\<lparr>hunger := 0, health := 10\<rparr>"]
  by (simp add: make_pet_def)

text \<open>
  C10. \<^const>\<open>get_mood\<close> depends on \<open>sleeping\<close>, \<open>hunger\<close>, \<open>happiness\<close> and
  \<open>energy\<close> only: two pets that agree on these four have the same mood, whatever
  their health, \<open>alive\<close>, turn and name are. Its value is one of the four moods and
  never \<^verbatim>\<open>"dead"\<close>, although \<^verbatim>\<open>FACES\<close> has a face under that key.
\<close>

theorem get_mood_reads_four_fields:
  "(sleeping p = sleeping q \<and> hunger p = hunger q \<and> happiness p = happiness q \<and>
    energy p = energy q \<longrightarrow> get_mood p = get_mood q) \<and>
   get_mood p \<in> {''sleeping'', ''happy'', ''sad'', ''neutral''} \<and>
   get_mood p \<noteq> ''dead'' \<and> ''dead'' \<in> set FACES_keys"
  by (simp add: get_mood_def Let_def FACES_keys_def)

text \<open>
  C10 at a fresh pet and at a dead pet of another name with health 0 in turn 40.
\<close>

theorem get_mood_reads_four_fields_witness:
  "get_mood (make_pet ''Pip'') =
     get_mood ((make_pet ''Rex'')\<lparr>health := 0, turn := 40, alive := False\<rparr>) \<and>
   get_mood ((make_pet ''Rex'')\<lparr>health := 0, turn := 40, alive := False\<rparr>) = ''happy''"
  using get_mood_reads_four_fields
    [of "make_pet ''Pip''" "(make_pet ''Rex'')\<lparr>health := 0, turn := 40, alive := False\<rparr>"]
  by (simp add: make_pet_def get_mood_def)

end
